theory Spec2Isabelle
  imports Complex_Main "HOL-Library.Log_Nat"
begin

section \<open>JavaScript values\<close>

text \<open>
  The program is a React Native screen (\<^verbatim>\<open>ChatbotScreen.tsx\<close>) over an axios
  client (\<^verbatim>\<open>apiBilly.ts\<close>). Conventions of the embedding:

  \<^item> A JavaScript string is a \<open>string\<close>; a character stands for one code unit
    below 256. The literal texts of the source hold accented letters, inverted
    marks and emoji: here the accent is dropped, the inverted mark is left out and
    an emoji is written as a word in square brackets.
  \<^item> A JavaScript number is a \<open>rat\<close>; the one addition of the program
    (\<open>js_add\<close>) rounds as IEEE doubles do.
  \<^item> An optional field or argument is an \<open>option\<close>: \<open>None\<close> is
    \<^verbatim>\<open>undefined\<close>.
  \<^item> A thrown value is an \<open>exn\<close>; a function that can throw, and every
    \<^verbatim>\<open>async\<close> function, returns \<open>exn + 'a\<close> with \<open>Inl\<close> the
    exception or the rejected promise.
\<close>

definition isWhiteSpace :: "char \<Rightarrow> bool" where
  "isWhiteSpace c = (of_char c \<in> {9, 10, 11, 12, 13, 32, 160 :: nat})"

definition trim :: "string \<Rightarrow> string" where
  "trim s = rev (dropWhile isWhiteSpace (rev (dropWhile isWhiteSpace s)))"

fun str_includes :: "string \<Rightarrow> string \<Rightarrow> bool" where
  "str_includes [] t = (t = [])"
| "str_includes (c # cs) t = (take (length t) (c # cs) = t \<or> str_includes cs t)"

text \<open>
  Truthiness of an optional string (\<^verbatim>\<open>undefined\<close> and the empty string are
  falsy), and the string a template literal or an argument gets from it.
\<close>

definition truthy_str :: "string option \<Rightarrow> bool" where
  "truthy_str v = (case v of None \<Rightarrow> False | Some x \<Rightarrow> x \<noteq> [])"

definition str_of :: "string option \<Rightarrow> string" where
  "str_of v = (case v of None \<Rightarrow> ''undefined'' | Some x \<Rightarrow> x)"

datatype json =
    JNull
  | JBool bool
  | JNum rat
  | JStr string
  | JArr "json list"
  | JObj "(string \<times> json) list"

text \<open>
  What axios hands to the \<^verbatim>\<open>catch\<close> block: \<^verbatim>\<open>error.message\<close>, and
  \<^verbatim>\<open>error.response\<close> when the server answered outside 2xx, as the pair
  of \<^verbatim>\<open>status\<close> and \<^verbatim>\<open>data.detail\<close>.
\<close>

record axios_error =
  err_message :: string
  err_response :: "(nat \<times> string option) option"

definition err_status :: "axios_error \<Rightarrow> nat option" where
  "err_status e = map_option fst (err_response e)"

definition err_detail :: "axios_error \<Rightarrow> string option" where
  "err_detail e = (case err_response e of None \<Rightarrow> None | Some (st, d) \<Rightarrow> d)"

datatype exn = JsError string | JsTypeError string | AxiosError axios_error

fun message_of :: "exn \<Rightarrow> string" where
  "message_of (JsError m) = m"
| "message_of (JsTypeError m) = m"
| "message_of (AxiosError e) = err_message e"

datatype 'a axios_outcome = Resolved 'a | Rejected axios_error

definition await :: "exn + 'a \<Rightarrow> ('a \<Rightarrow> exn + 'b) \<Rightarrow> exn + 'b" where
  "await p k = (case p of Inl e \<Rightarrow> Inl e | Inr x \<Rightarrow> k x)"

definition try_catch :: "exn + 'a \<Rightarrow> (exn \<Rightarrow> exn + 'a) \<Rightarrow> exn + 'a" where
  "try_catch p h = (case p of Inl e \<Rightarrow> h e | Inr x \<Rightarrow> Inr x)"

text \<open>
  \<^verbatim>\<open>data.status\<close> on a parsed body: reading a property of \<^verbatim>\<open>null\<close>
  throws, an object gives the property or \<^verbatim>\<open>undefined\<close>, any other value
  has no such property.
\<close>

fun get_property :: "json \<Rightarrow> string \<Rightarrow> exn + json option" where
  "get_property JNull k = Inl (JsTypeError (''Cannot read property '' @ k @ '' of null''))"
| "get_property (JObj kvs) k = Inr (map_of kvs k)"
| "get_property v k = Inr None"

section \<open>The client: apiBilly.ts\<close>

record ApiResponse =
  success :: bool
  response :: "string option"
  analysis :: "string option"
  preview :: "string option"
  pages :: "rat option"
  size_kb :: "rat option"

record ChatRequest =
  message :: string
  user_id :: "string option"
  clear_history :: "bool option"

record FilePart =
  uri :: string
  mime :: string
  file_name :: string

text \<open>
  The requests the client puts on the wire. \<open>PostClearHistory\<close> carries the
  \<^verbatim>\<open>user_id\<close> of its \<^verbatim>\<open>ClearHistoryRequest\<close>, \<open>PostAskPdf\<close> the
  \<^verbatim>\<open>question\<close> field of its form.
\<close>

datatype request =
    GetHealth
  | PostChat ChatRequest
  | PostUploadPdf FilePart
  | PostAskPdf string
  | PostClearHistory string

text \<open>
  Every client function is given the outcome \<open>t\<close> of its HTTP exchange and returns
  the request it sent together with what it returns or throws.
\<close>

definition checkHealth_try :: "json axios_outcome \<Rightarrow> exn + bool" where
  "checkHealth_try t =
     (case t of
        Rejected error \<Rightarrow> Inl (AxiosError error)
      | Resolved d \<Rightarrow>
          await (get_property d ''status'') (\<lambda>st. Inr (st = Some (JStr ''healthy''))))"

definition apiBilly_checkHealth :: "json axios_outcome \<Rightarrow> request \<times> (exn + bool)" where
  "apiBilly_checkHealth t =
     (GetHealth, try_catch (checkHealth_try t) (\<lambda>error. Inr False))"

definition sendMessage_errorMessage :: "axios_error \<Rightarrow> string" where
  "sendMessage_errorMessage error =
     (if truthy_str (err_detail error) then str_of (err_detail error)
      else if str_includes (err_message error) ''Network Error''
        then ''Error de red. Verifica tu conexion.''
      else if str_includes (err_message error) ''timeout''
        then ''Tiempo de espera agotado. Intenta nuevamente.''
      else ''Error al enviar mensaje'')"

definition apiBilly_sendMessage ::
  "string \<Rightarrow> string option \<Rightarrow> ApiResponse axios_outcome \<Rightarrow> request \<times> (exn + ApiResponse)" where
  "apiBilly_sendMessage msg userId t =
     (let uid = (case userId of None \<Rightarrow> ''default'' | Some u \<Rightarrow> u);
          requestData = \<lparr>message = msg, user_id = Some uid, clear_history = Some False\<rparr>
      in (PostChat requestData,
          case t of
            Resolved d \<Rightarrow> Inr d
          | Rejected error \<Rightarrow> Inl (JsError (sendMessage_errorMessage error))))"

definition uploadPDF_errorMessage :: "axios_error \<Rightarrow> string" where
  "uploadPDF_errorMessage error =
     (if truthy_str (err_detail error) then str_of (err_detail error)
      else if str_includes (err_message error) ''Network Error''
        then ''Error de red al subir PDF. Verifica tu conexion.''
      else if str_includes (err_message error) ''timeout''
        then ''El PDF es demasiado grande o el servidor esta tardando demasiado.''
      else if err_status error = Some 413
        then ''El PDF es demasiado grande. Intenta con un archivo mas pequeno.''
      else if err_status error = Some 415
        then ''Formato de archivo no soportado. Asegurate de que sea un PDF valido.''
      else ''Error al subir PDF'')"

definition apiBilly_uploadPDF ::
  "string \<Rightarrow> string \<Rightarrow> ApiResponse axios_outcome \<Rightarrow> request \<times> (exn + ApiResponse)" where
  "apiBilly_uploadPDF fileUri fileName t =
     (let file = \<lparr>uri = fileUri, mime = ''application/pdf'',
                  file_name = (if fileName \<noteq> [] then fileName else ''document.pdf'')\<rparr>
      in (PostUploadPdf file,
          case t of
            Resolved d \<Rightarrow> Inr d
          | Rejected error \<Rightarrow> Inl (JsError (uploadPDF_errorMessage error))))"

definition askPDF_errorMessage :: "axios_error \<Rightarrow> string" where
  "askPDF_errorMessage error =
     (if truthy_str (err_detail error) then str_of (err_detail error)
      else if str_includes (err_message error) ''No PDF loaded''
        then ''No hay PDF cargado. Primero sube un PDF.''
      else if str_includes (err_message error) ''Network Error''
        then ''Error de red. Verifica tu conexion.''
      else ''Error al hacer pregunta sobre PDF'')"

definition apiBilly_askPDF ::
  "string \<Rightarrow> ApiResponse axios_outcome \<Rightarrow> request \<times> (exn + ApiResponse)" where
  "apiBilly_askPDF question t =
     (PostAskPdf question,
      case t of
        Resolved d \<Rightarrow> Inr d
      | Rejected error \<Rightarrow> Inl (JsError (askPDF_errorMessage error)))"

definition clearHistory_errorMessage :: "axios_error \<Rightarrow> string" where
  "clearHistory_errorMessage error =
     (if truthy_str (err_detail error) then str_of (err_detail error)
      else ''Error al limpiar historial'')"

definition apiBilly_clearHistory ::
  "string option \<Rightarrow> ApiResponse axios_outcome \<Rightarrow> request \<times> (exn + ApiResponse)" where
  "apiBilly_clearHistory userId t =
     (let uid = (case userId of None \<Rightarrow> ''default'' | Some u \<Rightarrow> u)
      in (PostClearHistory uid,
          case t of
            Resolved d \<Rightarrow> Inr d
          | Rejected error \<Rightarrow> Inl (JsError (clearHistory_errorMessage error))))"

section \<open>The screen: ChatbotScreen.tsx\<close>

subsection \<open>Clock, random numbers and message identifiers\<close>

text \<open>
  The environment of a run. A message is stamped when it is created; the
  \<open>k\<close>-th message created since the screen was mounted reads \<open>dateNow k\<close> from
  \<^verbatim>\<open>Date.now()\<close> (milliseconds since 1970), \<open>mathRandom k\<close> from
  \<^verbatim>\<open>Math.random()\<close> and \<open>newDate k\<close> from \<^verbatim>\<open>new Date()\<close>.
  \<open>numberToString\<close> is the text a template literal gives a number.
\<close>

record env =
  dateNow :: "nat \<Rightarrow> nat"
  mathRandom :: "nat \<Rightarrow> rat"
  newDate :: "nat \<Rightarrow> nat"
  numberToString :: "rat \<Rightarrow> string"

definition round_half_even :: "rat \<Rightarrow> int" where
  "round_half_even q =
     (let f = \<lfloor>q\<rfloor>; d = q - of_int f
      in if d < 1 / 2 then f else if 1 / 2 < d then f + 1 else if even f then f else f + 1)"

text \<open>
  \<^verbatim>\<open>Date.now() + Math.random()\<close>: the exact sum \<open>x\<close>, rounded to the nearest
  double, ties to even. For \<open>2 ^ e \<le> x < 2 ^ (e + 1)\<close> the doubles around \<open>x\<close>
  are the multiples of \<open>2 ^ e / 2 ^ 52\<close>. A sum below one arises only when the
  clock reads zero, and adding zero is exact.
\<close>

definition js_add :: "nat \<Rightarrow> rat \<Rightarrow> rat" where
  "js_add t r =
     (let x = of_nat t + r
      in if x < 1 then x
         else let u = 2 ^ (floorlog 2 (nat \<lfloor>x\<rfloor>) - 1) / 2 ^ 52
              in of_int (round_half_even (x / u)) * u)"

datatype msg_kind =
  K_text | K_search | K_pdf | K_citation | K_error | K_pdf_upload | K_pdf_analysis

text \<open>
  \<^verbatim>\<open>ChatMessage\<close> of \<^verbatim>\<open>types/chat.ts\<close>; the fields \<^verbatim>\<open>id\<close>,
  \<^verbatim>\<open>text\<close>, \<^verbatim>\<open>type\<close> and \<^verbatim>\<open>data\<close> carry the prefix \<open>msg_\<close>.
\<close>

record ChatMessage =
  msg_id :: rat
  msg_text :: string
  isBot :: bool
  timestamp :: nat
  msg_type :: "msg_kind option"
  msg_data :: "json option"

record CurrentPDF =
  doc_name :: string
  doc_analysis :: "string option"
  doc_preview :: "string option"
  doc_pages :: "rat option"
  doc_size_kb :: "rat option"

text \<open>
  The state of the component: its six \<^verbatim>\<open>useState\<close> cells, and two
  observers that the source does not hold: \<open>calls\<close>, the requests sent so far,
  and \<open>minted\<close>, the number of messages created so far (the position in the
  readings of \<open>env\<close>).
\<close>

record screen =
  messages :: "ChatMessage list"
  inputText :: string
  isLoading :: bool
  isServerConnected :: "bool option"
  currentPDF :: "CurrentPDF option"
  uploadingPDF :: bool
  calls :: "request list"
  minted :: nat

definition sent :: "request \<Rightarrow> screen \<Rightarrow> screen" where
  "sent rq s = s\<lparr>calls := calls s @ [rq]\<rparr>"

definition greeting_text :: string where
  "greeting_text =
     ''Hola! Soy Billy, tu asistente de investigacion academica. Puedo ayudarte a:\<newline>\<newline>'' @
     ''[doc] **Analizar PDFs** - Sube cualquier paper academico\<newline>'' @
     ''[chat] **Chat academico** - Responde preguntas sobre investigacion\<newline>'' @
     ''[books] **Explicar conceptos** - De cualquier area del conocimiento\<newline>\<newline>'' @
     ''En que puedo ayudarte hoy?''"

definition initial :: "env \<Rightarrow> screen" where
  "initial e =
     \<lparr>messages =
        [\<lparr>msg_id = of_nat (dateNow e 0), msg_text = greeting_text, isBot = True,
          timestamp = newDate e 0, msg_type = Some K_text, msg_data = None\<rparr>],
      inputText = [], isLoading = False, isServerConnected = None, currentPDF = None,
      uploadingPDF = False, calls = [], minted = 1\<rparr>"

definition newMessage ::
  "env \<Rightarrow> nat \<Rightarrow> string \<Rightarrow> bool \<Rightarrow> msg_kind option \<Rightarrow> json option \<Rightarrow> ChatMessage" where
  "newMessage e k txt fromBot ty dat =
     \<lparr>msg_id = js_add (dateNow e k) (mathRandom e k), msg_text = txt, isBot = fromBot,
      timestamp = newDate e k,
      msg_type = Some (case ty of None \<Rightarrow> K_text | Some x \<Rightarrow> x), msg_data = dat\<rparr>"

definition addMessage ::
  "env \<Rightarrow> string \<Rightarrow> bool \<Rightarrow> msg_kind option \<Rightarrow> json option \<Rightarrow> screen \<Rightarrow> screen" where
  "addMessage e txt fromBot ty dat s =
     s\<lparr>messages := messages s @ [newMessage e (minted s) txt fromBot ty dat],
       minted := Suc (minted s)\<rparr>"

subsection \<open>Handlers\<close>

definition checkServerConnection :: "env \<Rightarrow> json axios_outcome \<Rightarrow> screen \<Rightarrow> exn + screen" where
  "checkServerConnection e t s =
     (let (rq, res) = apiBilly_checkHealth t; s0 = sent rq s
      in try_catch
           (await res (\<lambda>connected.
              let s1 = s0\<lparr>isServerConnected := Some connected\<rparr>
              in Inr (if connected
                 then addMessage e
                   ''[ok] Servidor conectado. Puedes subir PDFs y usar todas las funcionalidades!''
                   True None None s1
                 else addMessage e
                   (''[warn] Servidor no disponible. Para analizar PDFs, '' @
                    ''asegurate de que el servidor este corriendo.'')
                   True None None s1)))
           (\<lambda>error. Inr (addMessage e
              ''[x] No se pudo conectar con el servidor. Usando modo local.''
              True None None (s0\<lparr>isServerConnected := Some False\<rparr>))))"

definition handleNormalChat ::
  "env \<Rightarrow> ApiResponse axios_outcome \<Rightarrow> string \<Rightarrow> screen \<Rightarrow> exn + screen" where
  "handleNormalChat e t msg s =
     (if isServerConnected s = Some False
      then Inr (addMessage e
        (''Estoy procesando tu consulta academica. Para analizar PDFs, '' @
         ''asegurate de que el servidor este corriendo.'')
        True None None s)
      else
        let (rq, res) = apiBilly_sendMessage msg None t; s0 = sent rq s
        in try_catch
             (await res (\<lambda>resp. Inr
                (if success resp \<and> truthy_str (response resp)
                 then addMessage e (str_of (response resp)) True None None s0
                 else addMessage e ''No recibi una respuesta valida del servidor.''
                   True (Some K_error) None s0)))
             (\<lambda>error. Inr (addMessage e (''Error: '' @ message_of error)
                True (Some K_error) None s0)))"

definition handlePDFQuestion ::
  "env \<Rightarrow> ApiResponse axios_outcome \<Rightarrow> string \<Rightarrow> screen \<Rightarrow> exn + screen" where
  "handlePDFQuestion e t question s =
     (if currentPDF s = None
      then Inr (addMessage e ''Primero debes subir un PDF para hacer preguntas sobre el.''
        True None None s)
      else if isServerConnected s = Some False
      then Inr (addMessage e
        (''Para analizar PDFs, necesito conectarme al servidor. '' @
         ''Asegurate de que este corriendo.'')
        True None None s)
      else
        let s1 = addMessage e
              (''[think] Preguntando sobre el PDF: '' @ [CHR 0x22] @ question @ [CHR 0x22] @ ''...'')
              True (Some K_pdf_upload) None s;
            (rq, res) = apiBilly_askPDF question t;
            s2 = sent rq s1
        in try_catch
             (await res (\<lambda>resp. Inr
                (if success resp \<and> truthy_str (response resp)
                 then addMessage e
                   (''[doc] **Respuesta basada en el PDF:**\<newline>\<newline>'' @ str_of (response resp))
                   True (Some K_pdf_analysis) None s2
                 else addMessage e
                   ''No pude analizar el PDF. Asegurate de que este bien formateado.''
                   True (Some K_error) None s2)))
             (\<lambda>error. Inr (addMessage e (''Error analizando PDF: '' @ message_of error)
                True (Some K_error) None s2)))"

text \<open>
  \<^verbatim>\<open>sendMessage\<close> of the screen. The two handlers read \<^verbatim>\<open>currentPDF\<close>
  and \<^verbatim>\<open>isServerConnected\<close> as the render that created them saw them; no
  step of \<open>sendMessage\<close> writes either cell, so the state handed on gives the
  same values.
\<close>

definition sendMessage :: "env \<Rightarrow> ApiResponse axios_outcome \<Rightarrow> screen \<Rightarrow> exn + screen" where
  "sendMessage e t s =
     (if trim (inputText s) = [] then Inr s
      else
        let userMessage = inputText s;
            s1 = addMessage e userMessage False None None s;
            s2 = s1\<lparr>inputText := []\<rparr>;
            s3 = s2\<lparr>isLoading := True\<rparr>
        in await
             (try_catch
                (if currentPDF s \<noteq> None then handlePDFQuestion e t userMessage s3
                 else handleNormalChat e t userMessage s3)
                (\<lambda>error. Inr (addMessage e (''[x] Error: '' @ message_of error)
                   True (Some K_error) None s3)))
             (\<lambda>s4. Inr (s4\<lparr>isLoading := False\<rparr>)))"

definition upload_summary :: "env \<Rightarrow> string \<Rightarrow> ApiResponse \<Rightarrow> string" where
  "upload_summary e fileName resp =
     ''[ok] **PDF subido exitosamente!**\<newline>\<newline>'' @
     ''[doc] **Archivo:** '' @ fileName @ ''\<newline>'' @
     ''[tabs] **Paginas:** '' @
       (case pages resp of
          Some n \<Rightarrow> if n \<noteq> 0 then numberToString e n else ''N/A''
        | None \<Rightarrow> ''N/A'') @
       ''\<newline>'' @
     ''[chart] **Tamano:** '' @
       (case size_kb resp of
          Some n \<Rightarrow> if n \<noteq> 0 then numberToString e n @ '' KB'' else ''N/A''
        | None \<Rightarrow> ''N/A'') @
       ''\<newline>\<newline>'' @
     ''[idea] Ahora puedes hacer preguntas sobre este documento.''"

definition uploadPDF ::
  "env \<Rightarrow> ApiResponse axios_outcome \<Rightarrow> string \<Rightarrow> string \<Rightarrow> screen \<Rightarrow> exn + screen" where
  "uploadPDF e t fileUri fileName s =
     (if isServerConnected s = Some False then Inr s
      else
        let s1 = addMessage e (''[outbox] Subiendo PDF: '' @ fileName @ ''...'')
              True (Some K_pdf_upload) None s;
            (rq, res) = apiBilly_uploadPDF fileUri fileName t;
            s2 = sent rq s1
        in try_catch
             (await res (\<lambda>resp. Inr
                (if success resp
                 then
                   let s3 = s2\<lparr>currentPDF := Some
                          \<lparr>doc_name = fileName, doc_analysis = analysis resp,
                           doc_preview = preview resp, doc_pages = pages resp,
                           doc_size_kb = size_kb resp\<rparr>\<rparr>;
                       s4 = addMessage e (upload_summary e fileName resp)
                          True (Some K_pdf) None s3
                   in if truthy_str (analysis resp)
                      then addMessage e
                        (''[clip] **Analisis inicial del PDF:**\<newline>\<newline>'' @ str_of (analysis resp))
                        True (Some K_pdf_analysis) None s4
                      else s4
                 else addMessage e ''Error al subir el PDF. Intenta con otro archivo.''
                   True (Some K_error) None s2)))
             (\<lambda>error. Inr (addMessage e (''Error subiendo PDF: '' @ message_of error)
                True (Some K_error) None s2)))"

text \<open>
  What the document picker gave: a file (\<^verbatim>\<open>uri\<close>, \<^verbatim>\<open>name\<close>), or a
  rejection with its \<^verbatim>\<open>code\<close> (cancelled, permission denied, unsupported
  type, other). Every rejection ends in a log line or an alert; none writes the
  state.
\<close>

datatype pick_outcome = Picked string "string option" | PickRejected string

definition pickPDF ::
  "env \<Rightarrow> pick_outcome \<Rightarrow> ApiResponse axios_outcome \<Rightarrow> screen \<Rightarrow> exn + screen" where
  "pickPDF e pick t s =
     (let s1 = s\<lparr>uploadingPDF := True\<rparr>
      in await
           (try_catch
              (case pick of
                 PickRejected code \<Rightarrow> Inl (JsError code)
               | Picked fileUri nm \<Rightarrow>
                   uploadPDF e t fileUri (if truthy_str nm then str_of nm else ''documento.pdf'') s1)
              (\<lambda>error. Inr s1))
           (\<lambda>s2. Inr (s2\<lparr>uploadingPDF := False\<rparr>)))"

text \<open>
  \<^verbatim>\<open>clearPDF\<close> and \<^verbatim>\<open>clearChat\<close> ask in an alert first; \<open>confirm\<close> is
  the button pressed (\<open>True\<close> for the destructive one).
\<close>

definition clearPDF :: "env \<Rightarrow> bool \<Rightarrow> screen \<Rightarrow> screen" where
  "clearPDF e confirm s =
     (if currentPDF s \<noteq> None
      then (if confirm
            then addMessage e ''[doc] PDF eliminado. Puedes subir otro documento cuando quieras.''
              True None None (s\<lparr>currentPDF := None\<rparr>)
            else s)
      else addMessage e ''No hay PDF cargado actualmente.'' True None None s)"

definition restart_text :: string where
  "restart_text =
     ''Hola! Soy Billy, tu asistente de investigacion academica. '' @
     ''La conversacion ha sido reiniciada.\<newline>\<newline>'' @
     ''[doc] Puedes subir PDFs usando el boton de abajo.''"

definition clearChat ::
  "env \<Rightarrow> bool \<Rightarrow> ApiResponse axios_outcome \<Rightarrow> screen \<Rightarrow> exn + screen" where
  "clearChat e confirm t s =
     (if \<not> confirm then Inr s
      else
        let (rq, res) = apiBilly_clearHistory None t; s0 = sent rq s
        in await (try_catch (await res (\<lambda>resp. Inr s0)) (\<lambda>error. Inr s0))
             (\<lambda>s1. Inr (s1\<lparr>messages :=
                   [\<lparr>msg_id = of_nat (dateNow e (minted s1)), msg_text = restart_text,
                     isBot = True, timestamp = newDate e (minted s1),
                     msg_type = Some K_text, msg_data = None\<rparr>],
                 minted := Suc (minted s1), currentPDF := None\<rparr>)))"

subsection \<open>Runs\<close>

text \<open>
  What can happen to the screen, each with the outcome of the exchange it may
  start: the probe started on mount completes; the user types a text and
  submits it; picks a file; presses the clear-document or the clear-conversation
  button and answers the alert. The input controls are disabled while a request
  is pending, so a handler has run to its end before the next event.
\<close>

datatype event =
    Probe "json axios_outcome"
  | Submit string "ApiResponse axios_outcome"
  | PickPDF pick_outcome "ApiResponse axios_outcome"
  | ClearPDF bool
  | ClearChat bool "ApiResponse axios_outcome"

fun step :: "env \<Rightarrow> event \<Rightarrow> screen \<Rightarrow> exn + screen" where
  "step e (Probe t) s = checkServerConnection e t s"
| "step e (Submit txt t) s = sendMessage e t (s\<lparr>inputText := txt\<rparr>)"
| "step e (PickPDF pick t) s = pickPDF e pick t s"
| "step e (ClearPDF confirm) s = Inr (clearPDF e confirm s)"
| "step e (ClearChat confirm t) s = clearChat e confirm t s"

fun run :: "env \<Rightarrow> event list \<Rightarrow> screen \<Rightarrow> exn + screen" where
  "run e [] s = Inr s"
| "run e (ev # evs) s = await (step e ev s) (run e evs)"

section \<open>Vocabulary of the properties\<close>

text \<open>
  The health endpoint "responded with status healthy": a 2xx answer whose body is
  an object with the property \<^verbatim>\<open>status\<close> equal to the string
  \<^verbatim>\<open>healthy\<close>.
\<close>

fun responded_healthy :: "json axios_outcome \<Rightarrow> bool" where
  "responded_healthy (Resolved (JObj kvs)) = (map_of kvs ''status'' = Some (JStr ''healthy''))"
| "responded_healthy t = False"

text \<open>
  An event clears the document when the user confirms one of the two clearing
  alerts; it uploads when a file was picked and the server answered the upload
  with \<^verbatim>\<open>success\<close>.
\<close>

fun clears :: "event \<Rightarrow> bool" where
  "clears (ClearPDF confirm) = confirm"
| "clears (ClearChat confirm t) = confirm"
| "clears ev = False"

fun uploads :: "event \<Rightarrow> bool" where
  "uploads (PickPDF (Picked fileUri nm) (Resolved r)) = success r"
| "uploads ev = False"

definition chat_request :: "string \<Rightarrow> request" where
  "chat_request txt =
     PostChat \<lparr>message = txt, user_id = Some ''default'', clear_history = Some False\<rparr>"

fun default_user :: "request \<Rightarrow> bool" where
  "default_user (PostChat rq) = (user_id rq = Some ''default'' \<and> clear_history rq = Some False)"
| "default_user (PostClearHistory u) = (u = ''default'')"
| "default_user rq = True"

text \<open>
  The submissions of a list of texts, each with the outcome of its exchange, and
  the number of messages one submission that is not blank adds to the
  transcript.
\<close>

definition submissions :: "(string \<times> ApiResponse axios_outcome) list \<Rightarrow> event list" where
  "submissions subs = map (\<lambda>(txt, t). Submit txt t) subs"

definition not_blank :: "(string \<times> ApiResponse axios_outcome) list \<Rightarrow> nat" where
  "not_blank subs = length (filter (\<lambda>(txt, t). trim txt \<noteq> []) subs)"

definition per_round_trip :: "screen \<Rightarrow> nat" where
  "per_round_trip s =
     (if currentPDF s \<noteq> None \<and> isServerConnected s \<noteq> Some False then 3 else 2)"

subsection \<open>Sample data\<close>

fun decimal :: "nat \<Rightarrow> string" where
  "decimal n =
     (if n < 10 then [char_of (48 + n)] else decimal (n div 10) @ [char_of (48 + n mod 10)])"

text \<open>
  A device whose clock stands at one millisecond while the random numbers
  differ from message to message.
\<close>

definition env0 :: env where
  "env0 =
     \<lparr>dateNow = (\<lambda>k. 1700000000000), mathRandom = (\<lambda>k. 1 / 2 + of_nat k / 2 ^ 30),
      newDate = (\<lambda>k. 1700000000000), numberToString = (\<lambda>q. decimal (nat \<lfloor>q\<rfloor>))\<rparr>"

definition chat_ok :: ApiResponse where
  "chat_ok =
     \<lparr>success = True, response = Some ''Attention is...'', analysis = None, preview = None,
      pages = None, size_kb = None\<rparr>"

definition upload_ok :: ApiResponse where
  "upload_ok =
     \<lparr>success = True, response = None, analysis = Some ''Summary...'', preview = None,
      pages = Some 12, size_kb = Some 340\<rparr>"

definition network_error :: axios_error where
  "network_error = \<lparr>err_message = ''Network Error'', err_response = None\<rparr>"

definition healthy :: json where
  "healthy = JObj [(''status'', JStr ''healthy'')]"

definition degraded :: json where
  "degraded = JObj [(''status'', JStr ''degraded'')]"

definition paper :: pick_outcome where
  "paper = Picked ''file:///paper.pdf'' (Some ''paper.pdf'')"

text \<open>The state of a fresh screen that holds an uploaded document.\<close>

definition with_paper :: screen where
  "with_paper =
     (initial env0)\<lparr>currentPDF := Some
        \<lparr>doc_name = ''paper.pdf'', doc_analysis = Some ''Summary...'', doc_preview = None,
         doc_pages = Some 12, doc_size_kb = Some 340\<rparr>\<rparr>"

section \<open>Basic facts\<close>

lemma await_simps [simp]: "await (Inr x) k = k x" "await (Inl err) k = Inl err"
  by (simp_all add: await_def)

lemma try_catch_simps [simp]: "try_catch (Inr x) h = Inr x" "try_catch (Inl err) h = h err"
  by (simp_all add: try_catch_def)

lemma trim_eq_Nil: "trim s = [] \<longleftrightarrow> (\<forall>c\<in>set s. isWhiteSpace c)"
proof
  assume "trim s = []"
  then have all: "\<forall>x\<in>set (dropWhile isWhiteSpace s). isWhiteSpace x"
    by (simp add: trim_def dropWhile_eq_Nil_conv)
  have "dropWhile isWhiteSpace s = []"
  proof (rule ccontr)
    assume ne: "dropWhile isWhiteSpace s \<noteq> []"
    then have "\<not> isWhiteSpace (hd (dropWhile isWhiteSpace s))"
      by (rule hd_dropWhile)
    moreover from ne have "hd (dropWhile isWhiteSpace s) \<in> set (dropWhile isWhiteSpace s)"
      by simp
    ultimately show False
      using all by blast
  qed
  then show "\<forall>c\<in>set s. isWhiteSpace c"
    by (simp add: dropWhile_eq_Nil_conv)
next
  assume "\<forall>c\<in>set s. isWhiteSpace c"
  then show "trim s = []"
    by (auto simp: trim_def dest: set_dropWhileD)
qed

lemma handleNormalChat_sent:
  "isServerConnected s \<noteq> Some False \<Longrightarrow>
   handleNormalChat e t msg s =
     (let s0 = sent (chat_request msg) s
      in Inr (case t of
           Resolved r \<Rightarrow>
             if success r \<and> truthy_str (response r)
             then addMessage e (str_of (response r)) True None None s0
             else addMessage e ''No recibi una respuesta valida del servidor.''
               True (Some K_error) None s0
         | Rejected err \<Rightarrow>
             addMessage e (''Error: '' @ sendMessage_errorMessage err)
               True (Some K_error) None s0))"
  by (cases t)
     (simp_all add: handleNormalChat_def apiBilly_sendMessage_def chat_request_def Let_def)

lemma handlePDFQuestion_sent:
  "currentPDF s \<noteq> None \<Longrightarrow> isServerConnected s \<noteq> Some False \<Longrightarrow>
   handlePDFQuestion e t q s =
     (let s1 = addMessage e
            (''[think] Preguntando sobre el PDF: '' @ [CHR 0x22] @ q @ [CHR 0x22] @ ''...'')
            True (Some K_pdf_upload) None s;
          s2 = sent (PostAskPdf q) s1
      in Inr (case t of
           Resolved r \<Rightarrow>
             if success r \<and> truthy_str (response r)
             then addMessage e
               (''[doc] **Respuesta basada en el PDF:**\<newline>\<newline>'' @ str_of (response r))
               True (Some K_pdf_analysis) None s2
             else addMessage e ''No pude analizar el PDF. Asegurate de que este bien formateado.''
               True (Some K_error) None s2
         | Rejected err \<Rightarrow>
             addMessage e (''Error analizando PDF: '' @ askPDF_errorMessage err)
               True (Some K_error) None s2))"
  by (cases t; cases "currentPDF s")
     (simp_all add: handlePDFQuestion_def apiBilly_askPDF_def Let_def)




text \<open>The equations that evaluate a run on sample data.\<close>

lemmas run_defs =
  sendMessage_def handleNormalChat_def handlePDFQuestion_def pickPDF_def uploadPDF_def
  checkServerConnection_def clearChat_def clearPDF_def
  apiBilly_checkHealth_def checkHealth_try_def apiBilly_sendMessage_def apiBilly_uploadPDF_def
  apiBilly_askPDF_def apiBilly_clearHistory_def
  addMessage_def sent_def initial_def Let_def trim_eq_Nil isWhiteSpace_def
  truthy_str_def str_of_def

lemmas sample_defs =
  paper_def upload_ok_def chat_ok_def network_error_def healthy_def degraded_def with_paper_def
  chat_request_def

subsection \<open>What each handler leaves behind\<close>

lemma sendMessage_effect:
  "\<exists>s'. sendMessage e t s = Inr s' \<and>
     currentPDF s' = currentPDF s \<and> isServerConnected s' = isServerConnected s \<and>
     calls s' = calls s @
       (if trim (inputText s) = [] \<or> isServerConnected s = Some False then []
        else if currentPDF s \<noteq> None then [PostAskPdf (inputText s)]
        else [chat_request (inputText s)]) \<and>
     length (messages s') = length (messages s) +
       (if trim (inputText s) = [] then 0
        else if currentPDF s \<noteq> None \<and> isServerConnected s \<noteq> Some False then 3 else 2) \<and>
     length (filter (\<lambda>m. \<not> isBot m) (messages s')) =
       length (filter (\<lambda>m. \<not> isBot m) (messages s)) + (if trim (inputText s) = [] then 0 else 1)"
proof (cases "trim (inputText s) = []")
  case True
  then show ?thesis by (simp add: sendMessage_def)
next
  case blank: False
  show ?thesis
  proof (cases "isServerConnected s = Some False")
    case True
    with blank show ?thesis
      by (simp add: sendMessage_def handleNormalChat_def handlePDFQuestion_def Let_def
          addMessage_def newMessage_def)
  next
    case conn: False
    show ?thesis
    proof (cases "currentPDF s = None")
      case True
      with blank conn show ?thesis
        by (cases t)
           (simp_all add: sendMessage_def handleNormalChat_sent Let_def addMessage_def
              newMessage_def sent_def)
    next
      case False
      with blank conn show ?thesis
        by (cases t)
           (simp_all add: sendMessage_def handlePDFQuestion_sent Let_def addMessage_def
              newMessage_def sent_def)
    qed
  qed
qed

lemma checkServerConnection_effect:
  "\<exists>s'. checkServerConnection e t s = Inr s' \<and> currentPDF s' = currentPDF s \<and>
     isServerConnected s' = Some (responded_healthy t) \<and> calls s' = calls s @ [GetHealth]"
proof (cases t)
  case (Resolved d)
  then show ?thesis
    by (cases d)
       (simp_all add: checkServerConnection_def apiBilly_checkHealth_def checkHealth_try_def
          sent_def addMessage_def Let_def)
next
  case (Rejected err)
  then show ?thesis
    by (simp add: checkServerConnection_def apiBilly_checkHealth_def checkHealth_try_def
        sent_def addMessage_def Let_def)
qed

lemma uploadPDF_effect:
  "\<exists>s'. uploadPDF e t fileUri fileName s = Inr s' \<and>
     isServerConnected s' = isServerConnected s \<and> uploadingPDF s' = uploadingPDF s \<and>
     calls s' = calls s @
       (if isServerConnected s = Some False then []
        else [PostUploadPdf \<lparr>uri = fileUri, mime = ''application/pdf'',
                file_name = (if fileName \<noteq> [] then fileName else ''document.pdf'')\<rparr>]) \<and>
     (uploads (PickPDF (Picked fileUri nm) t) \<and> isServerConnected s \<noteq> Some False
        \<longrightarrow> currentPDF s' \<noteq> None) \<and>
     (\<not> (uploads (PickPDF (Picked fileUri nm) t) \<and> isServerConnected s \<noteq> Some False)
        \<longrightarrow> currentPDF s' = currentPDF s)"
  by (cases t)
     (simp_all add: uploadPDF_def apiBilly_uploadPDF_def Let_def addMessage_def sent_def)

lemma pickPDF_effect:
  "\<exists>s'. pickPDF e pick t s = Inr s' \<and>
     isServerConnected s' = isServerConnected s \<and>
     list_all default_user (calls s') = list_all default_user (calls s) \<and>
     (uploads (PickPDF pick t) \<and> isServerConnected s \<noteq> Some False \<longrightarrow> currentPDF s' \<noteq> None) \<and>
     (\<not> (uploads (PickPDF pick t) \<and> isServerConnected s \<noteq> Some False)
        \<longrightarrow> currentPDF s' = currentPDF s)"
proof (cases pick)
  case (Picked fileUri nm)
  let ?f = "if truthy_str nm then str_of nm else ''documento.pdf''"
  from uploadPDF_effect[of e t fileUri ?f "s\<lparr>uploadingPDF := True\<rparr>" nm] show ?thesis
  proof (elim exE conjE)
    fix s'
    assume r: "uploadPDF e t fileUri ?f (s\<lparr>uploadingPDF := True\<rparr>) = Inr s'"
      and c: "isServerConnected s' = isServerConnected (s\<lparr>uploadingPDF := True\<rparr>)"
      and k: "calls s' = calls (s\<lparr>uploadingPDF := True\<rparr>) @
       (if isServerConnected (s\<lparr>uploadingPDF := True\<rparr>) = Some False then []
        else [PostUploadPdf \<lparr>uri = fileUri, mime = ''application/pdf'',
                file_name = (if ?f \<noteq> [] then ?f else ''document.pdf'')\<rparr>])"
      and a: "uploads (PickPDF (Picked fileUri nm) t) \<and>
          isServerConnected (s\<lparr>uploadingPDF := True\<rparr>) \<noteq> Some False \<longrightarrow> currentPDF s' \<noteq> None"
      and b: "\<not> (uploads (PickPDF (Picked fileUri nm) t) \<and>
          isServerConnected (s\<lparr>uploadingPDF := True\<rparr>) \<noteq> Some False) \<longrightarrow>
          currentPDF s' = currentPDF (s\<lparr>uploadingPDF := True\<rparr>)"
    have r': "pickPDF e pick t s = Inr (s'\<lparr>uploadingPDF := False\<rparr>)"
      using r Picked by (simp add: pickPDF_def Let_def)
    show ?thesis
      using r' c k a b Picked by (simp split: if_splits)
  qed
next
  case (PickRejected code)
  then show ?thesis
    by (simp add: pickPDF_def Let_def)
qed

lemma clearChat_effect:
  "\<exists>s'. clearChat e confirm t s = Inr s' \<and> isServerConnected s' = isServerConnected s \<and>
     calls s' = calls s @ (if confirm then [PostClearHistory ''default''] else []) \<and>
     currentPDF s' = (if confirm then None else currentPDF s)"
  by (cases t) (simp_all add: clearChat_def apiBilly_clearHistory_def sent_def Let_def)

lemma clearPDF_effect:
  "isServerConnected (clearPDF e confirm s) = isServerConnected s \<and>
   calls (clearPDF e confirm s) = calls s \<and>
   currentPDF (clearPDF e confirm s) = (if confirm then None else currentPDF s)"
  by (simp add: clearPDF_def addMessage_def)

lemma step_effect:
  "\<exists>s'. step e ev s = Inr s' \<and>
     (\<not> clears ev \<longrightarrow> currentPDF s \<noteq> None \<longrightarrow> currentPDF s' \<noteq> None) \<and>
     (\<not> uploads ev \<longrightarrow> currentPDF s = None \<longrightarrow> currentPDF s' = None) \<and>
     (list_all default_user (calls s) \<longrightarrow> list_all default_user (calls s')) \<and>
     (uploads ev \<and> isServerConnected s \<noteq> Some False \<longrightarrow> currentPDF s' \<noteq> None) \<and>
     (clears ev \<longrightarrow> currentPDF s' = None)"
proof (cases ev)
  case (Probe t)
  then show ?thesis
    using checkServerConnection_effect[of e t s] by auto
next
  case (Submit inp t)
  then show ?thesis
    using sendMessage_effect[of e t "s\<lparr>inputText := inp\<rparr>"]
    by (auto simp: chat_request_def)
next
  case (PickPDF pick t)
  then show ?thesis
    using pickPDF_effect[of e pick t s] by auto
next
  case (ClearPDF confirm)
  then show ?thesis
    using clearPDF_effect[of e confirm s] by auto
next
  case (ClearChat confirm t)
  then show ?thesis
    using clearChat_effect[of e confirm t s] by auto
qed

lemma run_effect:
  "\<exists>s'. run e evs s = Inr s' \<and>
     ((\<forall>ev\<in>set evs. \<not> clears ev) \<longrightarrow> currentPDF s \<noteq> None \<longrightarrow> currentPDF s' \<noteq> None) \<and>
     ((\<forall>ev\<in>set evs. \<not> uploads ev) \<longrightarrow> currentPDF s = None \<longrightarrow> currentPDF s' = None) \<and>
     (list_all default_user (calls s) \<longrightarrow> list_all default_user (calls s'))"
proof (induction evs arbitrary: s)
  case Nil
  show ?case by simp
next
  case (Cons ev evs)
  from step_effect[of e ev s] show ?case
  proof (elim exE conjE)
    fix s1
    assume s1: "step e ev s = Inr s1"
      and a: "\<not> clears ev \<longrightarrow> currentPDF s \<noteq> None \<longrightarrow> currentPDF s1 \<noteq> None"
      and b: "\<not> uploads ev \<longrightarrow> currentPDF s = None \<longrightarrow> currentPDF s1 = None"
      and c: "list_all default_user (calls s) \<longrightarrow> list_all default_user (calls s1)"
    from Cons.IH[of s1] show ?thesis
    proof (elim exE conjE)
      fix s2
      assume s2: "run e evs s1 = Inr s2"
        and a2: "(\<forall>ev\<in>set evs. \<not> clears ev) \<longrightarrow> currentPDF s1 \<noteq> None \<longrightarrow> currentPDF s2 \<noteq> None"
        and b2: "(\<forall>ev\<in>set evs. \<not> uploads ev) \<longrightarrow> currentPDF s1 = None \<longrightarrow> currentPDF s2 = None"
        and c2: "list_all default_user (calls s1) \<longrightarrow> list_all default_user (calls s2)"
      have r: "run e (ev # evs) s = Inr s2"
        using s1 s2 by simp
      have a3: "(\<forall>x\<in>set (ev # evs). \<not> clears x) \<longrightarrow> currentPDF s \<noteq> None \<longrightarrow> currentPDF s2 \<noteq> None"
        using a a2 by simp
      have b3: "(\<forall>x\<in>set (ev # evs). \<not> uploads x) \<longrightarrow> currentPDF s = None \<longrightarrow> currentPDF s2 = None"
        using b b2 by simp
      have c3: "list_all default_user (calls s) \<longrightarrow> list_all default_user (calls s2)"
        using c c2 by simp
      show ?thesis
        by (rule exI[of _ s2]) (intro conjI r a3 b3 c3)
    qed
  qed
qed

lemma submit_calls:
  "trim inp \<noteq> [] \<Longrightarrow>
   \<exists>s2. step e (Submit inp t) s1 = Inr s2 \<and>
     calls s2 = calls s1 @
       (if isServerConnected s1 = Some False then []
        else if currentPDF s1 \<noteq> None then [PostAskPdf inp] else [chat_request inp])"
  using sendMessage_effect[of e t "s1\<lparr>inputText := inp\<rparr>"] by (auto split: if_splits)

lemma submissions_effect:
  "\<exists>s'. run e (submissions subs) s = Inr s' \<and>
     currentPDF s' = currentPDF s \<and> isServerConnected s' = isServerConnected s \<and>
     length (messages s') = length (messages s) + per_round_trip s * not_blank subs \<and>
     length (filter (\<lambda>m. \<not> isBot m) (messages s')) =
       length (filter (\<lambda>m. \<not> isBot m) (messages s)) + not_blank subs"
proof (induction subs arbitrary: s)
  case Nil
  show ?case by (simp add: submissions_def not_blank_def)
next
  case (Cons p subs)
  obtain inp t where p: "p = (inp, t)"
    by (cases p)
  from sendMessage_effect[of e t "s\<lparr>inputText := inp\<rparr>"] show ?case
  proof (elim exE conjE)
    fix s1
    assume r1: "sendMessage e t (s\<lparr>inputText := inp\<rparr>) = Inr s1"
      and d1: "currentPDF s1 = currentPDF (s\<lparr>inputText := inp\<rparr>)"
      and c1: "isServerConnected s1 = isServerConnected (s\<lparr>inputText := inp\<rparr>)"
      and l1: "length (messages s1) = length (messages (s\<lparr>inputText := inp\<rparr>)) +
         (if trim (inputText (s\<lparr>inputText := inp\<rparr>)) = [] then 0
          else if currentPDF (s\<lparr>inputText := inp\<rparr>) \<noteq> None \<and>
                  isServerConnected (s\<lparr>inputText := inp\<rparr>) \<noteq> Some False then 3 else 2)"
      and u1: "length (filter (\<lambda>m. \<not> isBot m) (messages s1)) =
         length (filter (\<lambda>m. \<not> isBot m) (messages (s\<lparr>inputText := inp\<rparr>))) +
         (if trim (inputText (s\<lparr>inputText := inp\<rparr>)) = [] then 0 else 1)"
    have pr: "per_round_trip s1 = per_round_trip s"
      using d1 c1 by (simp add: per_round_trip_def)
    from Cons.IH[of s1] show ?thesis
    proof (elim exE conjE)
      fix s2
      assume r2: "run e (submissions subs) s1 = Inr s2"
        and d2: "currentPDF s2 = currentPDF s1"
        and c2: "isServerConnected s2 = isServerConnected s1"
        and l2: "length (messages s2) = length (messages s1) + per_round_trip s1 * not_blank subs"
        and u2: "length (filter (\<lambda>m. \<not> isBot m) (messages s2)) =
           length (filter (\<lambda>m. \<not> isBot m) (messages s1)) + not_blank subs"
      have r: "run e (submissions (p # subs)) s = Inr s2"
        using r1 r2 p by (simp add: submissions_def)
      have d: "currentPDF s2 = currentPDF s"
        using d1 d2 by simp
      have c: "isServerConnected s2 = isServerConnected s"
        using c1 c2 by simp
      have l: "length (messages s2) = length (messages s) + per_round_trip s * not_blank (p # subs)"
        using l1 l2 pr p by (simp add: not_blank_def per_round_trip_def)
      have u: "length (filter (\<lambda>m. \<not> isBot m) (messages s2)) =
           length (filter (\<lambda>m. \<not> isBot m) (messages s)) + not_blank (p # subs)"
        using u1 u2 p by (simp add: not_blank_def)
      show ?thesis
        by (rule exI[of _ s2]) (intro conjI r d c l u)
    qed
  qed
qed

subsection \<open>Identifiers\<close>

lemma js_add_scaled:
  assumes t: "t < 2 ^ 53" and tpos: "0 < t" and r0: "0 \<le> r" and r1: "r < 1"
  shows "js_add t r =
    of_int (round_half_even ((of_nat t + r) * 2 ^ (53 - floorlog 2 t))) / 2 ^ (53 - floorlog 2 t)"
proof -
  define n where "n = floorlog 2 t"
  have fl: "\<lfloor>of_nat t + r\<rfloor> = int t"
    using r0 r1 by (intro floor_unique) simp_all
  have ge1: "\<not> of_nat t + r < 1"
    using tpos r0 by (simp add: not_less)
  have npos: "0 < n"
    using tpos by (simp add: n_def floorlog_def)
  have n53: "n \<le> 53"
    using t by (simp add: n_def floorlog_le_iff)
  have "(2::rat) ^ (n - 1) * 2 ^ (53 - n) = 2 ^ 52"
    using npos n53 by (simp add: power_add[symmetric])
  then have u: "(2::rat) ^ (n - 1) / 2 ^ 52 = 1 / 2 ^ (53 - n)"
    by (simp add: field_simps)
  show ?thesis
    using ge1 fl u by (simp add: js_add_def Let_def n_def)
qed

lemma round_half_even_down:
  assumes "of_int f \<le> q" and "q < of_int f + 1 / 2"
  shows "round_half_even q = f"
proof -
  have "\<lfloor>q\<rfloor> = f"
    using assms by (intro floor_unique) simp_all
  then show ?thesis
    using assms by (simp add: round_half_even_def Let_def)
qed

lemma floorlog_sample: "floorlog 2 1700000000000 = 41"
  by (simp add: compute_floorlog)

lemma js_add_sample:
  assumes "k < 2 ^ 17"
  shows "js_add 1700000000000 (1 / 2 + of_nat k / 2 ^ 30) = 3400000000001 / 2"
proof -
  let ?r = "1 / 2 + of_nat k / (2 ^ 30 :: rat)"
  have k: "(of_nat k :: rat) < 2 ^ 17"
    using assms by (metis of_nat_less_iff of_nat_numeral of_nat_power)
  have r0: "0 \<le> ?r" and r1: "?r < 1"
    using k by (simp_all add: field_simps)
  have sc: "js_add 1700000000000 ?r =
      of_int (round_half_even ((of_nat 1700000000000 + ?r) * 2 ^ 12)) / 2 ^ 12"
    using js_add_scaled[of 1700000000000 ?r, OF _ _ r0 r1] by (simp add: floorlog_sample)
  have "round_half_even ((of_nat 1700000000000 + ?r) * 2 ^ 12) = 6963200000002048"
    using k by (intro round_half_even_down) (simp_all add: field_simps)
  with sc show ?thesis
    by simp
qed

section \<open>The client\<close>

text \<open>
  C6. \<^verbatim>\<open>checkHealth()\<close> never raises: for every outcome of the exchange it
  returns a boolean, which is true exactly when the health endpoint responded
  with status \<^verbatim>\<open>healthy\<close>, and false for any other body and for any
  transport failure (network error, timeout, an answer outside 2xx).
\<close>

theorem checkHealth_total: "apiBilly_checkHealth t = (GetHealth, Inr (responded_healthy t))"
proof (cases t)
  case (Resolved d)
  then show ?thesis
    by (cases d) (simp_all add: apiBilly_checkHealth_def checkHealth_try_def)
next
  case (Rejected err)
  then show ?thesis
    by (simp add: apiBilly_checkHealth_def checkHealth_try_def)
qed

theorem checkHealth_total_witness:
  "apiBilly_checkHealth (Resolved healthy) = (GetHealth, Inr True) \<and>
   apiBilly_checkHealth (Resolved degraded) = (GetHealth, Inr False) \<and>
   apiBilly_checkHealth (Resolved JNull) = (GetHealth, Inr False) \<and>
   apiBilly_checkHealth (Rejected network_error) = (GetHealth, Inr False)"
  using checkHealth_total[of "Resolved healthy"] checkHealth_total[of "Resolved degraded"]
    checkHealth_total[of "Resolved JNull"] checkHealth_total[of "Rejected network_error"]
  by (simp add: healthy_def degraded_def)

section \<open>Submissions\<close>

text \<open>
  C8. Submitting an input that is empty or holds only white space is a no-op:
  \<^verbatim>\<open>sendMessage\<close> returns the state it was given, so the transcript, the
  document slot, the pending flag and the connectivity flag are unchanged and no
  request is sent.
\<close>

theorem blank_submission_noop:
  "\<forall>c\<in>set (inputText s). isWhiteSpace c \<Longrightarrow> sendMessage e t s = Inr s"
  by (simp add: sendMessage_def trim_eq_Nil)

theorem blank_submission_noop_witness:
  "sendMessage env0 (Resolved chat_ok) ((initial env0)\<lparr>inputText := ''  ''\<rparr>) =
     Inr ((initial env0)\<lparr>inputText := ''  ''\<rparr>)"
  using blank_submission_noop[where s = "(initial env0)\<lparr>inputText := ''  ''\<rparr>" and e = env0
      and t = "Resolved chat_ok"]
  by (simp add: isWhiteSpace_def)



text \<open>
  C1, as amended. Once the document slot is set, every later submission that is
  not blank, up to the next confirmed clearing, sends no chat request: it sends
  \<^verbatim>\<open>askPDF\<close> with the submitted text, unless the connectivity flag is known
  false, and then it sends nothing. Once the slot is empty, every later
  submission that is not blank, up to the next upload that succeeds, sends no
  \<^verbatim>\<open>askPDF\<close>: it sends the chat request with the submitted text, unless
  the flag is known false, and then it sends nothing. An upload that succeeds
  while the flag is not known false sets the slot; a confirmed clearing empties
  it.
\<close>

theorem routing_follows_document:
  assumes "trim inp \<noteq> []"
  shows "(currentPDF s \<noteq> None \<and> (\<forall>x\<in>set mid. \<not> clears x) \<longrightarrow>
           (\<exists>s1 s2. run e mid s = Inr s1 \<and> step e (Submit inp t) s1 = Inr s2 \<and>
              currentPDF s1 \<noteq> None \<and>
              calls s2 = calls s1 @
                (if isServerConnected s1 = Some False then [] else [PostAskPdf inp]))) \<and>
         (currentPDF s = None \<and> (\<forall>x\<in>set mid. \<not> uploads x) \<longrightarrow>
           (\<exists>s1 s2. run e mid s = Inr s1 \<and> step e (Submit inp t) s1 = Inr s2 \<and>
              currentPDF s1 = None \<and>
              calls s2 = calls s1 @
                (if isServerConnected s1 = Some False then [] else [chat_request inp]))) \<and>
         (uploads ev \<and> isServerConnected s \<noteq> Some False \<longrightarrow>
           (\<exists>s1. step e ev s = Inr s1 \<and> currentPDF s1 \<noteq> None)) \<and>
         (clears ev \<longrightarrow> (\<exists>s1. step e ev s = Inr s1 \<and> currentPDF s1 = None))"
proof (intro conjI impI)
  assume h: "currentPDF s \<noteq> None \<and> (\<forall>x\<in>set mid. \<not> clears x)"
  from run_effect[of e mid s] obtain s1 where s1: "run e mid s = Inr s1"
    and d: "currentPDF s1 \<noteq> None"
    using h by (elim exE conjE) simp
  from submit_calls[OF assms, of e t s1] obtain s2 where
    "step e (Submit inp t) s1 = Inr s2"
    "calls s2 = calls s1 @ (if isServerConnected s1 = Some False then [] else [PostAskPdf inp])"
    using d by (elim exE conjE) simp
  with s1 d show "\<exists>s1 s2. run e mid s = Inr s1 \<and> step e (Submit inp t) s1 = Inr s2 \<and>
      currentPDF s1 \<noteq> None \<and>
      calls s2 = calls s1 @ (if isServerConnected s1 = Some False then [] else [PostAskPdf inp])"
    by (intro exI[of _ s1] exI[of _ s2] conjI)
next
  assume h: "currentPDF s = None \<and> (\<forall>x\<in>set mid. \<not> uploads x)"
  from run_effect[of e mid s] obtain s1 where s1: "run e mid s = Inr s1"
    and d: "currentPDF s1 = None"
    using h by (elim exE conjE) simp
  from submit_calls[OF assms, of e t s1] obtain s2 where
    "step e (Submit inp t) s1 = Inr s2"
    "calls s2 = calls s1 @ (if isServerConnected s1 = Some False then [] else [chat_request inp])"
    using d by (elim exE conjE) simp
  with s1 d show "\<exists>s1 s2. run e mid s = Inr s1 \<and> step e (Submit inp t) s1 = Inr s2 \<and>
      currentPDF s1 = None \<and>
      calls s2 = calls s1 @ (if isServerConnected s1 = Some False then [] else [chat_request inp])"
    by (intro exI[of _ s1] exI[of _ s2] conjI)
next
  assume "uploads ev \<and> isServerConnected s \<noteq> Some False"
  with step_effect[of e ev s] show "\<exists>s1. step e ev s = Inr s1 \<and> currentPDF s1 \<noteq> None"
    by (elim exE conjE) (intro exI conjI, assumption, simp)
next
  assume "clears ev"
  with step_effect[of e ev s] show "\<exists>s1. step e ev s = Inr s1 \<and> currentPDF s1 = None"
    by (elim exE conjE) (intro exI conjI, assumption, simp)
qed

theorem routing_follows_document_witness:
  "(\<exists>s2. step env0 (Submit ''hola'' (Resolved chat_ok)) with_paper = Inr s2 \<and>
      calls s2 = [PostAskPdf ''hola'']) \<and>
   (\<exists>s2. step env0 (Submit ''hola'' (Resolved chat_ok)) (initial env0) = Inr s2 \<and>
      calls s2 = [chat_request ''hola''])"
proof -
  have nb: "trim ''hola'' \<noteq> []"
    by (simp add: trim_eq_Nil isWhiteSpace_def)
  show ?thesis
    using routing_follows_document[OF nb, of with_paper "[]" env0 "Resolved chat_ok" "ClearPDF True"]
      routing_follows_document[OF nb, of "initial env0" "[]" env0 "Resolved chat_ok" "ClearPDF True"]
    by (simp add: with_paper_def initial_def)
qed

text \<open>
  C1 as stated fails. The upload succeeds while the probe started on mount is
  still pending; the probe then completes with a status other than
  \<^verbatim>\<open>healthy\<close>. The document is set, and the submission of \<open>hola\<close> that
  follows sends nothing: the requests are the upload and the probe, before and
  after it.
\<close>

theorem askPDF_skipped_when_disconnected:
  "map_sum id currentPDF
     (run env0 [PickPDF paper (Resolved upload_ok), Probe (Resolved degraded)] (initial env0)) =
     Inr (Some \<lparr>doc_name = ''paper.pdf'', doc_analysis = Some ''Summary...'', doc_preview = None,
       doc_pages = Some 12, doc_size_kb = Some 340\<rparr>) \<and>
   map_sum id calls
     (run env0 [PickPDF paper (Resolved upload_ok), Probe (Resolved degraded)] (initial env0)) =
     Inr [PostUploadPdf \<lparr>uri = ''file:///paper.pdf'', mime = ''application/pdf'',
            file_name = ''paper.pdf''\<rparr>, GetHealth] \<and>
   map_sum id calls
     (run env0 [PickPDF paper (Resolved upload_ok), Probe (Resolved degraded),
        Submit ''hola'' (Resolved chat_ok)] (initial env0)) =
     Inr [PostUploadPdf \<lparr>uri = ''file:///paper.pdf'', mime = ''application/pdf'',
            file_name = ''paper.pdf''\<rparr>, GetHealth]"
  by (simp add: run_defs sample_defs)

text \<open>
  C2, as amended. For every sequence of submissions, the transcript grows by two
  messages for each submission that is not blank when no document is set or the
  connectivity flag is known false (the user's message and one assistant or
  error message), and by three when a document is set and the flag is not known
  false (the user's message, the notice that the question is being asked, and
  the answer or error message). Each such submission appends exactly one user
  message, and a blank submission appends nothing.
\<close>

theorem transcript_growth:
  "\<exists>s'. run e (submissions subs) s = Inr s' \<and>
     length (messages s') = length (messages s) + per_round_trip s * not_blank subs \<and>
     length (filter (\<lambda>m. \<not> isBot m) (messages s')) =
       length (filter (\<lambda>m. \<not> isBot m) (messages s)) + not_blank subs"
  using submissions_effect[of e subs s] by (elim exE conjE) (intro exI conjI)

theorem transcript_growth_witness:
  "(\<exists>s'. run env0 (submissions [(''What is attention?'', Resolved chat_ok), (''  '', Resolved chat_ok),
        (''hola'', Rejected network_error)]) (initial env0) = Inr s' \<and>
      length (messages s') = 5) \<and>
   (\<exists>s'. run env0 (submissions [(''What is attention?'', Resolved chat_ok), (''  '', Resolved chat_ok),
        (''hola'', Rejected network_error)]) with_paper = Inr s' \<and>
      length (messages s') = 7)"
proof -
  let ?subs = "[(''What is attention?'', Resolved chat_ok), (''  '', Resolved chat_ok),
        (''hola'', Rejected network_error)]"
  have n: "not_blank ?subs = 2"
    by (simp add: not_blank_def trim_eq_Nil isWhiteSpace_def)
  have a: "\<exists>s'. run env0 (submissions ?subs) (initial env0) = Inr s' \<and> length (messages s') = 5"
    using transcript_growth[of env0 ?subs "initial env0"]
    by (elim exE conjE) (intro exI conjI, assumption, simp add: n per_round_trip_def initial_def)
  have b: "\<exists>s'. run env0 (submissions ?subs) with_paper = Inr s' \<and> length (messages s') = 7"
    using transcript_growth[of env0 ?subs with_paper]
    by (elim exE conjE)
       (intro exI conjI, assumption, simp add: n per_round_trip_def initial_def with_paper_def)
  from a b show ?thesis
    by (rule conjI)
qed

text \<open>
  C2 as stated fails. After an upload the transcript holds four messages; one
  question about the document, answered, leaves seven: the round trip added
  three messages, not two.
\<close>

theorem document_question_adds_three:
  "map_sum id (length \<circ> messages)
     (run env0 [PickPDF paper (Resolved upload_ok)] (initial env0)) = Inr 4 \<and>
   map_sum id (length \<circ> messages)
     (run env0 [PickPDF paper (Resolved upload_ok), Submit ''hola'' (Resolved chat_ok)]
        (initial env0)) = Inr 7"
  by (simp add: run_defs sample_defs)

text \<open>
  C5, as amended. While the connectivity flag is known false, a submission sends
  no request, and one that is not blank appends, after the user's message,
  exactly one local guidance message; an upload sends no request either. Two
  calls proceed whatever the flag: the health probe, and \<^verbatim>\<open>clearHistory\<close>
  of the confirmed clear-conversation action.
\<close>

theorem gating_when_disconnected:
  assumes "isServerConnected s = Some False"
  shows "(\<exists>s'. sendMessage e t s = Inr s' \<and> calls s' = calls s \<and>
            (trim (inputText s) \<noteq> [] \<longrightarrow>
               messages s' = messages s @
                 [newMessage e (minted s) (inputText s) False None None,
                  newMessage e (Suc (minted s))
                    (if currentPDF s = None
                     then ''Estoy procesando tu consulta academica. Para analizar PDFs, '' @
                          ''asegurate de que el servidor este corriendo.''
                     else ''Para analizar PDFs, necesito conectarme al servidor. '' @
                          ''Asegurate de que este corriendo.'')
                    True None None])) \<and>
         (\<exists>s'. uploadPDF e t fileUri fileName s = Inr s' \<and> calls s' = calls s) \<and>
         (\<exists>s'. checkServerConnection e th s = Inr s' \<and> calls s' = calls s @ [GetHealth]) \<and>
         (\<exists>s'. clearChat e True t s = Inr s' \<and> calls s' = calls s @ [PostClearHistory ''default''])"
proof (intro conjI)
  show "\<exists>s'. sendMessage e t s = Inr s' \<and> calls s' = calls s \<and>
            (trim (inputText s) \<noteq> [] \<longrightarrow>
               messages s' = messages s @
                 [newMessage e (minted s) (inputText s) False None None,
                  newMessage e (Suc (minted s))
                    (if currentPDF s = None
                     then ''Estoy procesando tu consulta academica. Para analizar PDFs, '' @
                          ''asegurate de que el servidor este corriendo.''
                     else ''Para analizar PDFs, necesito conectarme al servidor. '' @
                          ''Asegurate de que este corriendo.'')
                    True None None])"
    using assms
    by (cases "currentPDF s")
       (simp_all add: sendMessage_def handleNormalChat_def handlePDFQuestion_def Let_def
          addMessage_def)
  show "\<exists>s'. uploadPDF e t fileUri fileName s = Inr s' \<and> calls s' = calls s"
    using assms by (simp add: uploadPDF_def)
  show "\<exists>s'. checkServerConnection e th s = Inr s' \<and> calls s' = calls s @ [GetHealth]"
    using checkServerConnection_effect[of e th s] by (elim exE conjE) (intro exI conjI)
  show "\<exists>s'. clearChat e True t s = Inr s' \<and> calls s' = calls s @ [PostClearHistory ''default'']"
    using clearChat_effect[of e True t s] by (elim exE conjE) (intro exI conjI, assumption, simp)
qed

theorem gating_when_disconnected_witness:
  "(\<exists>s'. sendMessage env0 (Resolved chat_ok)
        ((initial env0)\<lparr>isServerConnected := Some False, inputText := ''hola''\<rparr>) = Inr s' \<and>
      calls s' = [] \<and>
      map msg_text (messages s') =
        [greeting_text, ''hola'',
         ''Estoy procesando tu consulta academica. Para analizar PDFs, '' @
         ''asegurate de que el servidor este corriendo.'']) \<and>
   (\<exists>s'. clearChat env0 True (Resolved chat_ok)
        ((initial env0)\<lparr>isServerConnected := Some False, inputText := ''hola''\<rparr>) = Inr s' \<and>
      calls s' = [PostClearHistory ''default''])"
proof -
  let ?s = "(initial env0)\<lparr>isServerConnected := Some False, inputText := ''hola''\<rparr>"
  have h: "isServerConnected ?s = Some False"
    by simp
  note g = gating_when_disconnected[OF h, of env0 "Resolved chat_ok" "''u''" "''f''"
      "Resolved healthy"]
  have a: "\<exists>s'. sendMessage env0 (Resolved chat_ok) ?s = Inr s' \<and> calls s' = [] \<and>
      map msg_text (messages s') =
        [greeting_text, ''hola'',
         ''Estoy procesando tu consulta academica. Para analizar PDFs, '' @
         ''asegurate de que el servidor este corriendo.'']"
    using g[THEN conjunct1]
    by (elim exE conjE)
       (intro exI conjI, assumption, simp add: initial_def,
        simp add: initial_def trim_eq_Nil isWhiteSpace_def newMessage_def)
  have b: "\<exists>s'. clearChat env0 True (Resolved chat_ok) ?s = Inr s' \<and>
      calls s' = [PostClearHistory ''default'']"
    using g[THEN conjunct2, THEN conjunct2, THEN conjunct2]
    by (elim exE conjE) (intro exI conjI, assumption, simp add: initial_def)
  from a b show ?thesis
    by (rule conjI)
qed

text \<open>
  C5 as stated fails in its last clause: the probe is not the only call that
  proceeds whatever the flag. After a probe that failed the flag is false, and
  the confirmed clear-conversation action still sends \<^verbatim>\<open>clearHistory\<close>.
\<close>

theorem clearHistory_sent_when_disconnected:
  "map_sum id isServerConnected (run env0 [Probe (Rejected network_error)] (initial env0)) =
     Inr (Some False) \<and>
   map_sum id calls
     (run env0 [Probe (Rejected network_error), ClearChat True (Rejected network_error)]
        (initial env0)) = Inr [GetHealth, PostClearHistory ''default'']"
  by (simp add: run_defs sample_defs)

text \<open>
  C10. Every chat request the screen sends carries the user identifier
  \<^verbatim>\<open>default\<close> and \<^verbatim>\<open>clear_history = false\<close>, and every clear-history
  request the identifier \<^verbatim>\<open>default\<close>: no run adds any other such request
  to the ones sent. In the client, \<^verbatim>\<open>sendMessage\<close> and
  \<^verbatim>\<open>clearHistory\<close> called without a \<^verbatim>\<open>userId\<close> use
  \<^verbatim>\<open>default\<close>, and \<^verbatim>\<open>sendMessage\<close> sets
  \<^verbatim>\<open>clear_history = false\<close> whatever the \<^verbatim>\<open>userId\<close>.
\<close>

theorem requests_carry_default_user:
  "(list_all default_user (calls s) \<longrightarrow>
      (\<exists>s'. run e evs s = Inr s' \<and> list_all default_user (calls s'))) \<and>
   fst (apiBilly_sendMessage msg None t) = chat_request msg \<and>
   (\<exists>rq. fst (apiBilly_sendMessage msg userId t) = PostChat rq \<and> clear_history rq = Some False) \<and>
   fst (apiBilly_clearHistory None t) = PostClearHistory ''default''"
proof (intro conjI impI)
  assume "list_all default_user (calls s)"
  with run_effect[of e evs s] show "\<exists>s'. run e evs s = Inr s' \<and> list_all default_user (calls s')"
    by (elim exE conjE) (intro exI conjI, assumption, simp)
qed (simp_all add: apiBilly_sendMessage_def apiBilly_clearHistory_def chat_request_def Let_def)

theorem requests_carry_default_user_witness:
  "(\<exists>s'. run env0 [Submit ''hola'' (Resolved chat_ok), ClearChat True (Resolved chat_ok)]
        (initial env0) = Inr s' \<and> list_all default_user (calls s')) \<and>
   map_sum id calls
     (run env0 [Submit ''hola'' (Resolved chat_ok), ClearChat True (Resolved chat_ok)]
        (initial env0)) =
     Inr [PostChat \<lparr>message = ''hola'', user_id = Some ''default'', clear_history = Some False\<rparr>,
          PostClearHistory ''default'']"
proof -
  have h: "list_all default_user (calls (initial env0))"
    by (simp add: initial_def)
  have "\<exists>s'. run env0 [Submit ''hola'' (Resolved chat_ok), ClearChat True (Resolved chat_ok)]
        (initial env0) = Inr s' \<and> list_all default_user (calls s')"
    using requests_carry_default_user[of "initial env0" env0
        "[Submit ''hola'' (Resolved chat_ok), ClearChat True (Resolved chat_ok)]"
        "''hola''" "Resolved chat_ok" None] h
    by blast
  moreover have "map_sum id calls
     (run env0 [Submit ''hola'' (Resolved chat_ok), ClearChat True (Resolved chat_ok)]
        (initial env0)) =
     Inr [PostChat \<lparr>message = ''hola'', user_id = Some ''default'', clear_history = Some False\<rparr>,
          PostClearHistory ''default'']"
    by (simp add: run_defs sample_defs)
  ultimately show ?thesis
    by (rule conjI)
qed

section \<open>Documents\<close>




section \<open>Message identifiers\<close>

text \<open>
  C9. Two distinct messages of the transcript should have distinct identifiers,
  also when they are created in the same instant. The code does not keep this.
  \<^verbatim>\<open>addMessage\<close> gives a message the identifier
  \<^verbatim>\<open>Date.now() + Math.random()\<close>, with no counter, and a double of the size
  of today's clock readings keeps twelve binary digits after the point. Here the
  probe has failed; the submission of \<open>hola\<close> appends the user's message and the
  guidance message in the same millisecond, with two different random numbers.
  The two sums round to the same double: the two messages (and the probe's,
  created in that millisecond too) carry one identifier, and the identifiers of
  the transcript are not distinct.
\<close>

theorem same_instant_ids_collide:
  "map_sum id (map msg_id \<circ> messages)
     (run env0 [Probe (Rejected network_error), Submit ''hola'' (Resolved chat_ok)]
        (initial env0)) =
     Inr [1700000000000, 3400000000001 / 2, 3400000000001 / 2, 3400000000001 / 2] \<and>
   map_sum id (distinct \<circ> map msg_id \<circ> messages)
     (run env0 [Probe (Rejected network_error), Submit ''hola'' (Resolved chat_ok)]
        (initial env0)) = Inr False \<and>
   map_sum id (map msg_text \<circ> messages)
     (run env0 [Probe (Rejected network_error), Submit ''hola'' (Resolved chat_ok)]
        (initial env0)) =
     Inr [greeting_text,
          ''[warn] Servidor no disponible. Para analizar PDFs, '' @
          ''asegurate de que el servidor este corriendo.'',
          ''hola'',
          ''Estoy procesando tu consulta academica. Para analizar PDFs, '' @
          ''asegurate de que el servidor este corriendo.''] \<and>
   dateNow env0 2 = dateNow env0 3 \<and>
   mathRandom env0 2 = 1 / 2 + 2 / 2 ^ 30 \<and> mathRandom env0 3 = 1 / 2 + 3 / 2 ^ 30"
  using js_add_sample[of 1] js_add_sample[of 2] js_add_sample[of 3]
  by (simp add: run_defs sample_defs newMessage_def env0_def)

section \<open>Clearing the conversation\<close>

text \<open>
  C7. The confirmed clear-conversation action calls \<^verbatim>\<open>clearHistory\<close> and
  swallows its failure: whatever the outcome of the call (when the exchange is
  rejected the client throws), the handler returns, the transcript is exactly
  one greeting message and the document slot is empty.
\<close>

theorem clear_conversation_resets:
  "\<exists>s'. clearChat e True t s = Inr s' \<and>
     messages s' =
       [\<lparr>msg_id = of_nat (dateNow e (minted s)), msg_text = restart_text, isBot = True,
         timestamp = newDate e (minted s), msg_type = Some K_text, msg_data = None\<rparr>] \<and>
     currentPDF s' = None \<and>
     calls s' = calls s @ [PostClearHistory ''default''] \<and>
     (\<forall>err. t = Rejected err \<longrightarrow>
        snd (apiBilly_clearHistory None t) = Inl (JsError (clearHistory_errorMessage err)))"
  by (cases t) (simp_all add: clearChat_def apiBilly_clearHistory_def sent_def Let_def)

theorem clear_conversation_resets_witness:
  "snd (apiBilly_clearHistory None (Rejected network_error)) =
     Inl (JsError ''Error al limpiar historial'') \<and>
   (\<exists>s'. clearChat env0 True (Rejected network_error) (initial env0) = Inr s' \<and>
      map msg_text (messages s') = [restart_text] \<and> currentPDF s' = None)"
  using clear_conversation_resets[of env0 "Rejected network_error" "initial env0"]
  by (auto simp: clearHistory_errorMessage_def network_error_def err_detail_def truthy_str_def)

end
